theory Spec2Isabelle
  imports Main
begin

section \<open>The authentication core of the Conduit client\<close>

text \<open>
  A shallow embedding of the session handling of the Angular RealWorld client:
  \<^verbatim>\<open>JwtService\<close> (the token in \<^verbatim>\<open>window.localStorage\<close>), the three HTTP interceptors,
  \<^verbatim>\<open>UserService\<close> (the \<^verbatim>\<open>BehaviorSubject\<close> of the current user and the operations on it),
  \<^verbatim>\<open>initAuth\<close>, the route guards, and the favorite and follow buttons.

  JavaScript runs every callback to completion on one thread, so each callback of the
  source is one function from state to state here. RxJS operators are modelled by what
  they do to the notifications that pass through them.
\<close>

subsection \<open>Users and object identity\<close>

text \<open>
  Modelled from the spec: the \<^verbatim>\<open>User\<close> interface (user.model.ts is imported by the
  service, its text is not among the sources). The spec lists a username, an email, an
  optional bio, an optional image URL and a bearer token. A user that arrives from the
  server is parsed JSON, cast to \<^verbatim>\<open>User\<close> without any check, so the token may be
  missing at run time: \<open>None\<close> is JavaScript's \<^verbatim>\<open>undefined\<close>.
\<close>

record User =
  email :: string
  token :: "string option"
  username :: string
  bio :: "string option"
  image_url :: "string option"

text \<open>
  A JavaScript object has an identity besides its fields: the first component is the
  reference, the second the fields. \<open>None\<close> of the option type is \<^verbatim>\<open>null\<close>.
  \<^verbatim>\<open>===\<close> on \<^verbatim>\<open>User | null\<close> compares references.
\<close>

fun strictEquals :: "(nat \<times> User) option \<Rightarrow> (nat \<times> User) option \<Rightarrow> bool" where
  "strictEquals None None = True"
| "strictEquals (Some a) (Some b) = (fst a = fst b)"
| "strictEquals _ _ = False"

subsection \<open>JwtService\<close>

text \<open>
  \<^verbatim>\<open>window.localStorage\<close> maps keys to strings. Reading a key that is not there gives
  \<^verbatim>\<open>undefined\<close> (\<open>None\<close>); writing a value stores its string conversion, so
  \<^verbatim>\<open>undefined\<close> is stored as the nine letters of its name (the service's own remark
  on storing \<^verbatim>\<open>null\<close> describes the same conversion).
\<close>

definition getToken :: "(string \<rightharpoonup> string) \<Rightarrow> string option" where
  "getToken ls = ls ''jwtToken''"

definition saveToken :: "string option \<Rightarrow> (string \<rightharpoonup> string) \<Rightarrow> (string \<rightharpoonup> string)" where
  "saveToken t ls = ls(''jwtToken'' \<mapsto> (case t of Some s \<Rightarrow> s | None \<Rightarrow> ''undefined''))"

definition destroyToken :: "(string \<rightharpoonup> string) \<Rightarrow> (string \<rightharpoonup> string)" where
  "destroyToken ls = ls(''jwtToken'' := None)"

text \<open>The truth value JavaScript gives a \<^verbatim>\<open>string | undefined\<close> in a condition.\<close>

definition truthy :: "string option \<Rightarrow> bool" where
  "truthy t = (case t of None \<Rightarrow> False | Some s \<Rightarrow> s \<noteq> [])"

subsection \<open>Observables\<close>

text \<open>
  Every observable the service builds from an HTTP call is finite: some values, then
  completion or an error. \<^verbatim>\<open>EMPTY\<close> completes at once; \<^verbatim>\<open>tap\<close> runs its callbacks
  on the state and passes every notification on unchanged.
\<close>

datatype 'e completion = Complete | Error 'e

definition EMPTY :: "'a list \<times> 'e completion" where
  "EMPTY = ([], Complete)"

definition throwError :: "'e \<Rightarrow> 'a list \<times> 'e completion" where
  "throwError e = ([], Error e)"

definition catchError ::
  "('d \<Rightarrow> 'a list \<times> 'e completion) \<Rightarrow> 'a list \<times> 'd completion \<Rightarrow> 'a list \<times> 'e completion" where
  "catchError h obs =
     (case snd obs of
        Complete \<Rightarrow> (fst obs, Complete)
      | Error d \<Rightarrow> (fst obs @ fst (h d), snd (h d)))"

definition tap ::
  "('a \<Rightarrow> 's \<Rightarrow> 's) \<Rightarrow> ('e \<Rightarrow> 's \<Rightarrow> 's) \<Rightarrow> 'a list \<times> 'e completion \<Rightarrow> 's \<Rightarrow> 's" where
  "tap onNext onError obs s =
     (case snd obs of
        Complete \<Rightarrow> fold onNext (fst obs) s
      | Error e \<Rightarrow> onError e (fold onNext (fst obs) s))"

subsection \<open>HTTP requests and the interceptors\<close>

datatype request_body =
    NoBody
  | LoginBody string string
  | RegisterBody string string string
  | UpdateBody "(string \<times> string) list"

record HttpRequest =
  verb :: string
  url :: string
  headers :: "string \<rightharpoonup> string"
  body :: request_body

record 'e HttpErrorResponse =
  status :: nat
  error :: 'e

text \<open>
  The body \<^verbatim>\<open>{ user: User }\<close> of a successful response, parsed: the user is a fresh
  object.
\<close>

record UserResponse =
  user :: "nat \<times> User"

text \<open>An interceptor gets the request and the rest of the chain.\<close>

definition apiInterceptor :: "HttpRequest \<Rightarrow> (HttpRequest \<Rightarrow> 'o) \<Rightarrow> 'o" where
  "apiInterceptor req nxt = nxt (req\<lparr>url := ''https://api.realworld.io/api'' @ url req\<rparr>)"

definition tokenInterceptor :: "(string \<rightharpoonup> string) \<Rightarrow> HttpRequest \<Rightarrow> (HttpRequest \<Rightarrow> 'o) \<Rightarrow> 'o" where
  "tokenInterceptor ls req nxt =
     (let tok = getToken ls in
      nxt (req\<lparr>headers :=
        (case tok of
           Some s \<Rightarrow> if truthy tok then (headers req)(''Authorization'' \<mapsto> ''Token '' @ s) else headers req
         | None \<Rightarrow> headers req)\<rparr>))"

definition errorInterceptor ::
  "HttpRequest \<Rightarrow> (HttpRequest \<Rightarrow> 'a list \<times> 'e HttpErrorResponse completion) \<Rightarrow> 'a list \<times> 'e completion" where
  "errorInterceptor req nxt = catchError (\<lambda>err. throwError (error err)) (nxt req)"

text \<open>
  The server is the environment: any function from the request it receives to a failure
  response or the user of a successful one. The backend parses a successful body into a
  new object with reference \<open>r\<close>.
\<close>

definition backend ::
  "(HttpRequest \<Rightarrow> 'e HttpErrorResponse + User) \<Rightarrow> nat \<Rightarrow> HttpRequest \<Rightarrow>
     UserResponse list \<times> 'e HttpErrorResponse completion" where
  "backend server r req =
     (case server req of
        Inl failure \<Rightarrow> ([], Error failure)
      | Inr u \<Rightarrow> ([\<lparr>user = (r, u)\<rparr>], Complete))"

subsection \<open>The application state\<close>

text \<open>
  A subscriber of \<^verbatim>\<open>currentUser\<close> or \<^verbatim>\<open>isAuthenticated\<close>: the value
  \<^verbatim>\<open>distinctUntilChanged\<close> saw last on this subscription (\<open>None\<close> before the first),
  and what the observer has received so far.
\<close>

record 'a subscriber =
  previous :: "(nat \<times> User) option option"
  received :: "'a list"

record app =
  localStorage :: "string \<rightharpoonup> string"
  currentUserSubject :: "(nat \<times> User) option"
  currentUserObservers :: "(nat \<times> User) option subscriber list"
  isAuthenticatedObservers :: "bool subscriber list"
  nextRef :: nat
  navigations :: "string list"
  requests :: "HttpRequest list"

definition initial :: app where
  "initial = \<lparr>localStorage = Map.empty, currentUserSubject = None,
     currentUserObservers = [], isAuthenticatedObservers = [],
     nextRef = 0, navigations = [], requests = []\<rparr>"

text \<open>
  \<^verbatim>\<open>distinctUntilChanged()\<close> with no comparator: the first value passes, a later one
  passes unless it is \<^verbatim>\<open>===\<close> to the previous one.
\<close>

fun distinctUntilChanged :: "(nat \<times> User) option option \<Rightarrow> (nat \<times> User) option \<Rightarrow> (nat \<times> User) option option" where
  "distinctUntilChanged None v = Some v"
| "distinctUntilChanged (Some p) v = (if strictEquals p v then None else Some v)"

text \<open>
  \<^verbatim>\<open>currentUser = currentUserSubject.asObservable().pipe(distinctUntilChanged())\<close> and
  \<^verbatim>\<open>isAuthenticated = currentUser.pipe(map((user) => !!user))\<close>, for one subscriber
  each, when the subject emits \<open>v\<close>.
\<close>

definition currentUser :: "(nat \<times> User) option \<Rightarrow> (nat \<times> User) option subscriber \<Rightarrow> (nat \<times> User) option subscriber" where
  "currentUser v sub =
     (case distinctUntilChanged (previous sub) v of
        None \<Rightarrow> sub
      | Some x \<Rightarrow> sub\<lparr>previous := Some x, received := received sub @ [x]\<rparr>)"

definition isAuthenticated :: "(nat \<times> User) option \<Rightarrow> bool subscriber \<Rightarrow> bool subscriber" where
  "isAuthenticated v sub =
     (case distinctUntilChanged (previous sub) v of
        None \<Rightarrow> sub
      | Some x \<Rightarrow> sub\<lparr>previous := Some x, received := received sub @ [x \<noteq> None]\<rparr>)"

text \<open>\<^verbatim>\<open>currentUserSubject.next(v)\<close>: store the value and notify every subscriber.\<close>

definition subject_next :: "(nat \<times> User) option \<Rightarrow> app \<Rightarrow> app" where
  "subject_next v a =
     a\<lparr>currentUserSubject := v,
       currentUserObservers := map (currentUser v) (currentUserObservers a),
       isAuthenticatedObservers := map (isAuthenticated v) (isAuthenticatedObservers a)\<rparr>"

text \<open>
  Subscribing to a \<^verbatim>\<open>BehaviorSubject\<close> delivers its present value before
  \<^verbatim>\<open>subscribe\<close> returns.
\<close>

definition newSubscriber :: "'a subscriber" where
  "newSubscriber = \<lparr>previous = None, received = []\<rparr>"

definition subscribe_currentUser :: "app \<Rightarrow> app" where
  "subscribe_currentUser a =
     a\<lparr>currentUserObservers :=
         currentUserObservers a @ [currentUser (currentUserSubject a) newSubscriber]\<rparr>"

definition subscribe_isAuthenticated :: "app \<Rightarrow> app" where
  "subscribe_isAuthenticated a =
     a\<lparr>isAuthenticatedObservers :=
         isAuthenticatedObservers a @ [isAuthenticated (currentUserSubject a) newSubscriber]\<rparr>"

subsection \<open>HttpClient with the chain \<^verbatim>\<open>[apiInterceptor, tokenInterceptor, errorInterceptor]\<close>\<close>

text \<open>The request as it leaves the browser.\<close>

definition outgoing :: "HttpRequest \<Rightarrow> app \<Rightarrow> HttpRequest" where
  "outgoing req a = apiInterceptor req (\<lambda>r1. tokenInterceptor (localStorage a) r1 (\<lambda>r2. r2))"

text \<open>
  One subscription to a request observable, settled against the server: the
  notifications the caller sees, and the state with the request logged and the reference
  of the parsed body used up.
\<close>

definition http ::
  "HttpRequest \<Rightarrow> (HttpRequest \<Rightarrow> 'e HttpErrorResponse + User) \<Rightarrow> app \<Rightarrow>
     (UserResponse list \<times> 'e completion) \<times> app" where
  "http req server a =
     (apiInterceptor req (\<lambda>r1. tokenInterceptor (localStorage a) r1
        (\<lambda>r2. errorInterceptor r2 (backend server (nextRef a)))),
      a\<lparr>nextRef := Suc (nextRef a), requests := requests a @ [outgoing req a]\<rparr>)"

subsection \<open>UserService\<close>

definition setAuth :: "nat \<times> User \<Rightarrow> app \<Rightarrow> app" where
  "setAuth u a =
     subject_next (Some u) (a\<lparr>localStorage := saveToken (token (snd u)) (localStorage a)\<rparr>)"

definition purgeAuth :: "app \<Rightarrow> app" where
  "purgeAuth a = subject_next None (a\<lparr>localStorage := destroyToken (localStorage a)\<rparr>)"

definition login_request :: "string \<Rightarrow> string \<Rightarrow> HttpRequest" where
  "login_request em pw =
     \<lparr>verb = ''POST'', url = ''/users/login'', headers = Map.empty, body = LoginBody em pw\<rparr>"

definition login ::
  "string \<Rightarrow> string \<Rightarrow> (HttpRequest \<Rightarrow> 'e HttpErrorResponse + User) \<Rightarrow> app \<Rightarrow>
     (UserResponse list \<times> 'e completion) \<times> app" where
  "login em pw server a =
     (let (obs, a1) = http (login_request em pw) server a
      in (obs, tap (\<lambda>resp. setAuth (user resp)) (\<lambda>e s. s) obs a1))"

definition register_request :: "string \<Rightarrow> string \<Rightarrow> string \<Rightarrow> HttpRequest" where
  "register_request un em pw =
     \<lparr>verb = ''POST'', url = ''/users'', headers = Map.empty, body = RegisterBody un em pw\<rparr>"

definition register ::
  "string \<Rightarrow> string \<Rightarrow> string \<Rightarrow> (HttpRequest \<Rightarrow> 'e HttpErrorResponse + User) \<Rightarrow> app \<Rightarrow>
     (UserResponse list \<times> 'e completion) \<times> app" where
  "register un em pw server a =
     (let (obs, a1) = http (register_request un em pw) server a
      in (obs, tap (\<lambda>resp. setAuth (user resp)) (\<lambda>e s. s) obs a1))"

definition logout :: "app \<Rightarrow> app" where
  "logout a = (let a1 = purgeAuth a in a1\<lparr>navigations := navigations a1 @ [''/'']\<rparr>)"

definition getCurrentUser_request :: HttpRequest where
  "getCurrentUser_request =
     \<lparr>verb = ''GET'', url = ''/user'', headers = Map.empty, body = NoBody\<rparr>"

text \<open>
  \<^verbatim>\<open>getCurrentUser()\<close> called and its result subscribed once: with one subscriber
  \<^verbatim>\<open>shareReplay(1)\<close> passes the notifications of the source on as they are.
\<close>

definition getCurrentUser ::
  "(HttpRequest \<Rightarrow> 'e HttpErrorResponse + User) \<Rightarrow> app \<Rightarrow> (UserResponse list \<times> 'e completion) \<times> app" where
  "getCurrentUser server a =
     (let (obs, a1) = http getCurrentUser_request server a
      in (obs, tap (\<lambda>resp. setAuth (user resp)) (\<lambda>e. purgeAuth) obs a1))"

definition update_request :: "(string \<times> string) list \<Rightarrow> HttpRequest" where
  "update_request partial =
     \<lparr>verb = ''PUT'', url = ''/user'', headers = Map.empty, body = UpdateBody partial\<rparr>"

definition update ::
  "(string \<times> string) list \<Rightarrow> (HttpRequest \<Rightarrow> 'e HttpErrorResponse + User) \<Rightarrow> app \<Rightarrow>
     (UserResponse list \<times> 'e completion) \<times> app" where
  "update partial server a =
     (let (obs, a1) = http (update_request partial) server a
      in (obs, tap (\<lambda>resp. subject_next (Some (user resp))) (\<lambda>e s. s) obs a1))"

subsection \<open>Startup\<close>

definition initAuth ::
  "(HttpRequest \<Rightarrow> 'e HttpErrorResponse + User) \<Rightarrow> app \<Rightarrow> (UserResponse list \<times> 'e completion) \<times> app" where
  "initAuth server a =
     (if truthy (getToken (localStorage a)) then getCurrentUser server a else (EMPTY, a))"

text \<open>
  Angular runs an \<^verbatim>\<open>APP_INITIALIZER\<close> that returns an observable by subscribing to it
  with \<^verbatim>\<open>{ complete: resolve, error: reject }\<close>: completion lets the bootstrap go on,
  an error rejects it, and \<^verbatim>\<open>bootstrapApplication(...).catch(console.error)\<close> of
  main.ts is then all that happens.
\<close>

datatype 'e boot = Booted | BootFailed 'e

definition appInitializer :: "'a list \<times> 'e completion \<Rightarrow> 'e boot" where
  "appInitializer obs = (case snd obs of Complete \<Rightarrow> Booted | Error e \<Rightarrow> BootFailed e)"

definition bootstrapApplication ::
  "(HttpRequest \<Rightarrow> 'e HttpErrorResponse + User) \<Rightarrow> app \<Rightarrow> 'e boot \<times> app" where
  "bootstrapApplication server a = (let (obs, a1) = initAuth server a in (appInitializer obs, a1))"

subsection \<open>Route guards\<close>

text \<open>
  A guard returns an observable of booleans; the router takes the first value it emits.
  An observable derived from \<^verbatim>\<open>isAuthenticated\<close> is given by what a new subscription
  receives before \<^verbatim>\<open>subscribe\<close> returns. The guards are anonymous in app.routes.ts;
  the names are the spec's.
\<close>

definition firstValue :: "'a list \<Rightarrow> 'a option" where
  "firstValue xs = (case xs of [] \<Rightarrow> None | x # _ \<Rightarrow> Some x)"

definition guestOnly :: "app \<Rightarrow> bool list" where
  "guestOnly a =
     map (\<lambda>isAuth. \<not> isAuth) (received (isAuthenticated (currentUserSubject a) newSubscriber))"

definition authRequired :: "app \<Rightarrow> bool list" where
  "authRequired a = received (isAuthenticated (currentUserSubject a) newSubscriber)"

record route =
  path :: string
  canActivate :: "(app \<Rightarrow> bool list) list"
  children :: "(string \<times> (app \<Rightarrow> bool list) list) list"

definition routes :: "route list" where
  "routes =
     [\<lparr>path = [], canActivate = [], children = []\<rparr>,
      \<lparr>path = ''login'', canActivate = [guestOnly], children = []\<rparr>,
      \<lparr>path = ''register'', canActivate = [guestOnly], children = []\<rparr>,
      \<lparr>path = ''settings'', canActivate = [authRequired], children = []\<rparr>,
      \<lparr>path = ''profile'', canActivate = [], children = []\<rparr>,
      \<lparr>path = ''editor'', canActivate = [],
         children = [([], [authRequired]), ('':slug'', [authRequired])]\<rparr>,
      \<lparr>path = ''article/:slug'', canActivate = [], children = []\<rparr>]"

text \<open>
  The guards the router consults for the route with path \<open>p\<close>, or for its child \<open>c\<close>,
  and what each of them answers in state \<open>a\<close>.
\<close>

definition guardsAt :: "string \<Rightarrow> string option \<Rightarrow> (app \<Rightarrow> bool list) list" where
  "guardsAt p child =
     (case find (\<lambda>r. path r = p) routes of
        None \<Rightarrow> []
      | Some r \<Rightarrow>
          (case child of
             None \<Rightarrow> canActivate r
           | Some c \<Rightarrow> canActivate r @ (case map_of (children r) c of None \<Rightarrow> [] | Some gs \<Rightarrow> gs)))"

definition guardResults :: "string \<Rightarrow> string option \<Rightarrow> app \<Rightarrow> bool option list" where
  "guardResults p child a = map (\<lambda>g. firstValue (g a)) (guardsAt p child)"

subsection \<open>Sequences of calls\<close>

text \<open>
  The state changes only inside the callbacks of a call, which run when its response
  arrives, so any interleaving of calls in flight is a sequence of settled calls in the
  order of their responses. Each call carries the server that answers it.
\<close>

datatype 'e action =
    Login string string "HttpRequest \<Rightarrow> 'e HttpErrorResponse + User"
  | Register string string string "HttpRequest \<Rightarrow> 'e HttpErrorResponse + User"
  | Logout
  | GetCurrentUser "HttpRequest \<Rightarrow> 'e HttpErrorResponse + User"
  | UpdateProfile "(string \<times> string) list" "HttpRequest \<Rightarrow> 'e HttpErrorResponse + User"
  | SubscribeCurrentUser
  | SubscribeIsAuthenticated

fun perform :: "'e action \<Rightarrow> app \<Rightarrow> app" where
  "perform (Login em pw server) a = snd (login em pw server a)"
| "perform (Register un em pw server) a = snd (register un em pw server a)"
| "perform Logout a = logout a"
| "perform (GetCurrentUser server) a = snd (getCurrentUser server a)"
| "perform (UpdateProfile partial server) a = snd (update partial server a)"
| "perform SubscribeCurrentUser a = subscribe_currentUser a"
| "perform SubscribeIsAuthenticated a = subscribe_isAuthenticated a"

definition run :: "'e action list \<Rightarrow> app \<Rightarrow> app" where
  "run acts a = fold perform acts a"

subsection \<open>\<^verbatim>\<open>getCurrentUser\<close> with requests in flight\<close>

text \<open>
  Every call of \<^verbatim>\<open>getCurrentUser()\<close> builds a new
  \<^verbatim>\<open>http.get(...).pipe(tap(...), shareReplay(1))\<close>. The request observable is cold: it
  sends a request when it is subscribed. \<^verbatim>\<open>shareReplay(1)\<close> subscribes its source
  for its first subscriber, lets later subscribers join the same subscription, replays
  the value to those that come after completion, and starts over after an error.

  A pipeline is the state of one such \<^verbatim>\<open>shareReplay\<close>; \<open>deliveries\<close> records what each
  caller has observed.
\<close>

datatype shared = Cold | InFlight "nat list" | Replay UserResponse

record 'e sharing =
  service :: app
  pipelines :: "shared list"
  deliveries :: "(nat \<times> UserResponse list \<times> 'e completion) list"

definition getCurrentUser_call :: "'e sharing \<Rightarrow> nat \<times> 'e sharing" where
  "getCurrentUser_call w = (length (pipelines w), w\<lparr>pipelines := pipelines w @ [Cold]\<rparr>)"

definition subscribe :: "nat \<Rightarrow> nat \<Rightarrow> 'e sharing \<Rightarrow> 'e sharing" where
  "subscribe h caller w =
     (if h < length (pipelines w) then
        (case pipelines w ! h of
           Cold \<Rightarrow>
             w\<lparr>service := (service w)\<lparr>requests := requests (service w) @
                    [outgoing getCurrentUser_request (service w)]\<rparr>,
               pipelines := (pipelines w)[h := InFlight [caller]]\<rparr>
         | InFlight callers \<Rightarrow> w\<lparr>pipelines := (pipelines w)[h := InFlight (callers @ [caller])]\<rparr>
         | Replay resp \<Rightarrow> w\<lparr>deliveries := deliveries w @ [(caller, [resp], Complete)]\<rparr>)
      else w)"

text \<open>The response to the request of pipeline \<open>h\<close> arrives.\<close>

definition settle :: "nat \<Rightarrow> 'e HttpErrorResponse + User \<Rightarrow> 'e sharing \<Rightarrow> 'e sharing" where
  "settle h answer w =
     (if h < length (pipelines w) then
        (case pipelines w ! h of
           InFlight callers \<Rightarrow>
             (let a = service w;
                  obs = errorInterceptor getCurrentUser_request
                          (backend (\<lambda>req. answer) (nextRef a));
                  a1 = tap (\<lambda>resp. setAuth (user resp)) (\<lambda>e. purgeAuth) obs
                         (a\<lparr>nextRef := Suc (nextRef a)\<rparr>)
              in w\<lparr>service := a1,
                   pipelines := (pipelines w)
                     [h := (case fst obs of [] \<Rightarrow> Cold | resp # _ \<Rightarrow> Replay resp)],
                   deliveries := deliveries w @ map (\<lambda>caller. (caller, obs)) callers\<rparr>)
         | _ \<Rightarrow> w)
      else w)"

text \<open>
  Two call sites, the second while the request of the first is in flight; and, for
  comparison, two subscribers of the observable one call returned.
\<close>

definition two_call_sites :: "'e sharing \<Rightarrow> 'e sharing" where
  "two_call_sites w =
     (let (h1, w1) = getCurrentUser_call w;
          w2 = subscribe h1 1 w1;
          (h2, w3) = getCurrentUser_call w2
      in subscribe h2 2 w3)"

definition one_observable_two_subscribers :: "'e sharing \<Rightarrow> 'e sharing" where
  "one_observable_two_subscribers w =
     (let (h, w1) = getCurrentUser_call w;
          w2 = subscribe h 1 w1
      in subscribe h 2 w2)"

subsection \<open>The favorite and follow buttons\<close>

text \<open>
  Of \<^verbatim>\<open>Article\<close> and \<^verbatim>\<open>Profile\<close> (their declarations are not among the sources) a
  button reads the slug and \<^verbatim>\<open>favorited\<close>, or the username and \<^verbatim>\<open>following\<close>;
  they are fields of the component here. \<^verbatim>\<open>ArticlesService\<close> and
  \<^verbatim>\<open>ProfileService\<close> are represented by the calls handed to them,
  \<^verbatim>\<open>router.navigate\<close> by the targets it was given, the \<^verbatim>\<open>toggle\<close> output by the
  values emitted.
\<close>

datatype api_call = Favorite string | Unfavorite string | Follow string | Unfollow string

record FavoriteButtonComponent =
  fav_isSubmitting :: bool
  article_slug :: string
  article_favorited :: bool
  fav_toggle :: "bool list"
  fav_navigations :: "string list"
  fav_calls :: "api_call list"

text \<open>The function given to \<^verbatim>\<open>switchMap\<close>, for one value of \<^verbatim>\<open>isAuthenticated\<close>.\<close>

definition toggleFavorite_switchMap :: "bool \<Rightarrow> FavoriteButtonComponent \<Rightarrow> FavoriteButtonComponent" where
  "toggleFavorite_switchMap authenticated c =
     (if \<not> authenticated then c\<lparr>fav_navigations := fav_navigations c @ [''/register'']\<rparr>
      else if \<not> article_favorited c then c\<lparr>fav_calls := fav_calls c @ [Favorite (article_slug c)]\<rparr>
      else c\<lparr>fav_calls := fav_calls c @ [Unfavorite (article_slug c)]\<rparr>)"

text \<open>
  The click handler, up to the return of \<^verbatim>\<open>subscribe\<close>: the flag is set, and the
  subscription to \<^verbatim>\<open>isAuthenticated\<close> delivers the present value to \<^verbatim>\<open>switchMap\<close>.
  The \<^verbatim>\<open>next\<close> and \<^verbatim>\<open>error\<close> callbacks run when the inner observable emits or fails;
  \<^verbatim>\<open>EMPTY\<close> does neither, and the subscriber has no \<^verbatim>\<open>complete\<close> callback.
\<close>

definition toggleFavorite :: "app \<Rightarrow> FavoriteButtonComponent \<Rightarrow> FavoriteButtonComponent" where
  "toggleFavorite a c =
     fold toggleFavorite_switchMap
       (received (isAuthenticated (currentUserSubject a) newSubscriber))
       (c\<lparr>fav_isSubmitting := True\<rparr>)"

definition toggleFavorite_next :: "FavoriteButtonComponent \<Rightarrow> FavoriteButtonComponent" where
  "toggleFavorite_next c =
     c\<lparr>fav_isSubmitting := False, fav_toggle := fav_toggle c @ [\<not> article_favorited c]\<rparr>"

definition toggleFavorite_error :: "FavoriteButtonComponent \<Rightarrow> FavoriteButtonComponent" where
  "toggleFavorite_error c = c\<lparr>fav_isSubmitting := False\<rparr>"

record FollowButtonComponent =
  follow_isSubmitting :: bool
  profile_username :: string
  profile_following :: bool
  follow_toggle :: "(string \<times> bool) list"
  follow_navigations :: "string list"
  follow_calls :: "api_call list"

definition toggleFollowing_switchMap :: "bool \<Rightarrow> FollowButtonComponent \<Rightarrow> FollowButtonComponent" where
  "toggleFollowing_switchMap authenticated c =
     (if \<not> authenticated then c\<lparr>follow_navigations := follow_navigations c @ [''/login'']\<rparr>
      else if \<not> profile_following c then c\<lparr>follow_calls := follow_calls c @ [Follow (profile_username c)]\<rparr>
      else c\<lparr>follow_calls := follow_calls c @ [Unfollow (profile_username c)]\<rparr>)"

definition toggleFollowing :: "app \<Rightarrow> FollowButtonComponent \<Rightarrow> FollowButtonComponent" where
  "toggleFollowing a c =
     fold toggleFollowing_switchMap
       (received (isAuthenticated (currentUserSubject a) newSubscriber))
       (c\<lparr>follow_isSubmitting := True\<rparr>)"

definition toggleFollowing_next :: "string \<times> bool \<Rightarrow> FollowButtonComponent \<Rightarrow> FollowButtonComponent" where
  "toggleFollowing_next profile c =
     c\<lparr>follow_isSubmitting := False, follow_toggle := follow_toggle c @ [profile]\<rparr>"

definition toggleFollowing_error :: "FollowButtonComponent \<Rightarrow> FollowButtonComponent" where
  "toggleFollowing_error c = c\<lparr>follow_isSubmitting := False\<rparr>"

subsection \<open>Observations and example values\<close>

text \<open>What the Session is to an observer, and the token of the cached user.\<close>

definition session ::
  "app \<Rightarrow> (string \<rightharpoonup> string) \<times> (nat \<times> User) option \<times>
     (nat \<times> User) option subscriber list \<times> bool subscriber list \<times> string list" where
  "session a = (localStorage a, currentUserSubject a, currentUserObservers a,
     isAuthenticatedObservers a, navigations a)"


definition jake :: User where
  "jake = \<lparr>email = ''jake@x.com'', token = Some ''abc'', username = ''jake'',
     bio = None, image_url = None\<rparr>"

definition jake_session :: app where
  "jake_session = setAuth (0, jake) (initial\<lparr>nextRef := 1\<rparr>)"

definition reloaded :: "string \<Rightarrow> app" where
  "reloaded t = initial\<lparr>localStorage := saveToken (Some t) Map.empty\<rparr>"

definition accepting :: "User \<Rightarrow> HttpRequest \<Rightarrow> 'e HttpErrorResponse + User" where
  "accepting u req = Inr u"

definition rejecting :: "nat \<Rightarrow> 'e \<Rightarrow> HttpRequest \<Rightarrow> 'e HttpErrorResponse + User" where
  "rejecting code msg req = Inl \<lparr>status = code, error = msg\<rparr>"

definition fickle :: "HttpRequest \<Rightarrow> string HttpErrorResponse + User" where
  "fickle req =
     (if verb req = ''POST'' then Inr jake else Inl \<lparr>status = 401, error = ''token expired''\<rparr>)"

subsection \<open>Predicates of the proofs\<close>

text \<open>
  A step leaves the subject and its observers alone (\<open>frame\<close>) or is one
  \<^verbatim>\<open>next(v)\<close> (\<open>emitted\<close>).
\<close>

definition frame :: "app \<Rightarrow> app \<Rightarrow> bool" where
  "frame a b = (currentUserSubject b = currentUserSubject a \<and>
     currentUserObservers b = currentUserObservers a \<and>
     isAuthenticatedObservers b = isAuthenticatedObservers a)"

definition emitted :: "(nat \<times> User) option \<Rightarrow> app \<Rightarrow> app \<Rightarrow> bool" where
  "emitted v a b = (currentUserSubject b = v \<and>
     currentUserObservers b = map (currentUser v) (currentUserObservers a) \<and>
     isAuthenticatedObservers b = map (isAuthenticated v) (isAuthenticatedObservers a))"

definition quiet_or_emitted :: "app \<Rightarrow> app \<Rightarrow> bool" where
  "quiet_or_emitted a b = (frame a b \<or> (\<exists>v. emitted v a b))"

text \<open>An observer that has caught up with the value \<open>v\<close> of the subject.\<close>

definition auth_settled :: "(nat \<times> User) option \<Rightarrow> bool subscriber \<Rightarrow> bool" where
  "auth_settled v s =
     (case previous s of
        None \<Rightarrow> False
      | Some p \<Rightarrow> (p = None) = (v = None) \<and> received s \<noteq> [] \<and> last (received s) = (v \<noteq> None))"

definition user_settled :: "(nat \<times> User) option \<Rightarrow> (nat \<times> User) option subscriber \<Rightarrow> bool" where
  "user_settled v s =
     (case previous s of
        None \<Rightarrow> False
      | Some p \<Rightarrow> (p = None) = (v = None) \<and> received s \<noteq> [] \<and> (last (received s) = None) = (v = None))"

definition settled :: "app \<Rightarrow> bool" where
  "settled a =
     (list_all (auth_settled (currentUserSubject a)) (isAuthenticatedObservers a) \<and>
      list_all (user_settled (currentUserSubject a)) (currentUserObservers a))"

text \<open>
  The \<open>n\<close>-th observer of \<^verbatim>\<open>isAuthenticated\<close> and the \<open>m\<close>-th of \<^verbatim>\<open>currentUser\<close>
  have seen the same emissions.
\<close>

definition paired :: "nat \<Rightarrow> nat \<Rightarrow> app \<Rightarrow> bool" where
  "paired n m a =
     (n < length (isAuthenticatedObservers a) \<and> m < length (currentUserObservers a) \<and>
      previous (isAuthenticatedObservers a ! n) = previous (currentUserObservers a ! m) \<and>
      received (isAuthenticatedObservers a ! n) =
        map (\<lambda>u. u \<noteq> None) (received (currentUserObservers a ! m)))"

section \<open>Properties\<close>

subsection \<open>What one call does\<close>

lemma http_success:
  "server (outgoing req a) = Inr u \<Longrightarrow>
   http req server a =
     (([\<lparr>user = (nextRef a, u)\<rparr>], Complete),
      a\<lparr>nextRef := Suc (nextRef a), requests := requests a @ [outgoing req a]\<rparr>)"
  by (simp add: http_def outgoing_def apiInterceptor_def tokenInterceptor_def Let_def
      errorInterceptor_def backend_def catchError_def)

lemma http_failure:
  "server (outgoing req a) = Inl r \<Longrightarrow>
   http req server a =
     (([], Error (error r)),
      a\<lparr>nextRef := Suc (nextRef a), requests := requests a @ [outgoing req a]\<rparr>)"
  by (simp add: http_def outgoing_def apiInterceptor_def tokenInterceptor_def Let_def
      errorInterceptor_def backend_def catchError_def throwError_def)





lemma login_success:
  "server (outgoing (login_request em pw) a) = Inr u \<Longrightarrow>
   login em pw server a =
     (([\<lparr>user = (nextRef a, u)\<rparr>], Complete),
      setAuth (nextRef a, u)
        (a\<lparr>nextRef := Suc (nextRef a),
           requests := requests a @ [outgoing (login_request em pw) a]\<rparr>))"
  by (simp add: login_def http_success tap_def)

lemma login_failure:
  "server (outgoing (login_request em pw) a) = Inl r \<Longrightarrow>
   login em pw server a =
     (([], Error (error r)),
      a\<lparr>nextRef := Suc (nextRef a),
         requests := requests a @ [outgoing (login_request em pw) a]\<rparr>)"
  by (simp add: login_def http_failure tap_def)

lemma register_success:
  "server (outgoing (register_request un em pw) a) = Inr u \<Longrightarrow>
   register un em pw server a =
     (([\<lparr>user = (nextRef a, u)\<rparr>], Complete),
      setAuth (nextRef a, u)
        (a\<lparr>nextRef := Suc (nextRef a),
           requests := requests a @ [outgoing (register_request un em pw) a]\<rparr>))"
  by (simp add: register_def http_success tap_def)

lemma register_failure:
  "server (outgoing (register_request un em pw) a) = Inl r \<Longrightarrow>
   register un em pw server a =
     (([], Error (error r)),
      a\<lparr>nextRef := Suc (nextRef a),
         requests := requests a @ [outgoing (register_request un em pw) a]\<rparr>)"
  by (simp add: register_def http_failure tap_def)

lemma getCurrentUser_success:
  "server (outgoing getCurrentUser_request a) = Inr u \<Longrightarrow>
   getCurrentUser server a =
     (([\<lparr>user = (nextRef a, u)\<rparr>], Complete),
      setAuth (nextRef a, u)
        (a\<lparr>nextRef := Suc (nextRef a),
           requests := requests a @ [outgoing getCurrentUser_request a]\<rparr>))"
  by (simp add: getCurrentUser_def http_success tap_def)

lemma getCurrentUser_failure:
  "server (outgoing getCurrentUser_request a) = Inl r \<Longrightarrow>
   getCurrentUser server a =
     (([], Error (error r)),
      purgeAuth
        (a\<lparr>nextRef := Suc (nextRef a),
           requests := requests a @ [outgoing getCurrentUser_request a]\<rparr>))"
  by (simp add: getCurrentUser_def http_failure tap_def)

lemma update_success:
  "server (outgoing (update_request partial) a) = Inr u \<Longrightarrow>
   update partial server a =
     (([\<lparr>user = (nextRef a, u)\<rparr>], Complete),
      subject_next (Some (nextRef a, u))
        (a\<lparr>nextRef := Suc (nextRef a),
           requests := requests a @ [outgoing (update_request partial) a]\<rparr>))"
  by (simp add: update_def http_success tap_def)

lemma update_failure:
  "server (outgoing (update_request partial) a) = Inl r \<Longrightarrow>
   update partial server a =
     (([], Error (error r)),
      a\<lparr>nextRef := Suc (nextRef a),
         requests := requests a @ [outgoing (update_request partial) a]\<rparr>)"
  by (simp add: update_def http_failure tap_def)

text \<open>The definitions a concrete run unfolds.\<close>

lemmas eval_defs = run_def login_def register_def logout_def getCurrentUser_def update_def
  http_def apiInterceptor_def tokenInterceptor_def errorInterceptor_def backend_def
  catchError_def throwError_def tap_def setAuth_def purgeAuth_def subject_next_def
  subscribe_currentUser_def subscribe_isAuthenticated_def newSubscriber_def
  currentUser_def isAuthenticated_def initial_def accepting_def rejecting_def Let_def
  outgoing_def getToken_def saveToken_def destroyToken_def truthy_def
  login_request_def register_request_def getCurrentUser_request_def update_request_def

subsection \<open>Every call is silent or one emission\<close>

lemma frame_refl: "frame a a"
  by (simp add: frame_def)

lemma frame_log: "frame a (a\<lparr>nextRef := n, requests := rs\<rparr>)"
  by (simp add: frame_def)

lemma subject_next_emitted: "frame a a1 \<Longrightarrow> emitted v a (subject_next v a1)"
  by (simp add: frame_def emitted_def subject_next_def)

lemma setAuth_emitted: "frame a a1 \<Longrightarrow> emitted (Some u) a (setAuth u a1)"
  by (simp add: frame_def emitted_def subject_next_def setAuth_def)

lemma purgeAuth_emitted: "frame a a1 \<Longrightarrow> emitted None a (purgeAuth a1)"
  by (simp add: frame_def emitted_def subject_next_def purgeAuth_def)

lemma quiet_log: "quiet_or_emitted a (a\<lparr>nextRef := n, requests := rs\<rparr>)"
  by (simp add: quiet_or_emitted_def frame_log)

lemma quiet_subject_next:
  "quiet_or_emitted a (subject_next v (a\<lparr>nextRef := n, requests := rs\<rparr>))"
  unfolding quiet_or_emitted_def using subject_next_emitted [OF frame_log] by blast

lemma quiet_setAuth: "quiet_or_emitted a (setAuth u (a\<lparr>nextRef := n, requests := rs\<rparr>))"
  unfolding quiet_or_emitted_def using setAuth_emitted [OF frame_log] by blast

lemma quiet_purgeAuth: "quiet_or_emitted a (purgeAuth (a\<lparr>nextRef := n, requests := rs\<rparr>))"
  unfolding quiet_or_emitted_def using purgeAuth_emitted [OF frame_log] by blast

lemma login_step: "quiet_or_emitted a (snd (login em pw server a))"
  by (cases "server (outgoing (login_request em pw) a)")
    (simp_all add: login_failure login_success quiet_log quiet_setAuth)

lemma register_step: "quiet_or_emitted a (snd (register un em pw server a))"
  by (cases "server (outgoing (register_request un em pw) a)")
    (simp_all add: register_failure register_success quiet_log quiet_setAuth)

lemma update_step: "quiet_or_emitted a (snd (update partial server a))"
  by (cases "server (outgoing (update_request partial) a)")
    (simp_all add: update_failure update_success quiet_log quiet_subject_next)

lemma getCurrentUser_step: "quiet_or_emitted a (snd (getCurrentUser server a))"
  by (cases "server (outgoing getCurrentUser_request a)")
    (simp_all add: getCurrentUser_failure getCurrentUser_success quiet_purgeAuth quiet_setAuth)

lemma logout_step: "quiet_or_emitted a (logout a)"
proof -
  have "emitted None a (logout a)"
    using purgeAuth_emitted [OF frame_refl, of a]
    by (simp add: logout_def Let_def emitted_def)
  then show ?thesis
    unfolding quiet_or_emitted_def by blast
qed

subsection \<open>Observers catch up in the step that changes the subject\<close>

lemma strictEquals_null: "strictEquals p v \<Longrightarrow> (p = None) = (v = None)"
  by (cases p; cases v) simp_all

lemma isAuthenticated_settles:
  "previous s = None \<or> auth_settled old s \<Longrightarrow> auth_settled v (isAuthenticated v s)"
  by (cases "previous s")
    (auto simp: auth_settled_def isAuthenticated_def dest: strictEquals_null)

lemma currentUser_settles:
  "previous s = None \<or> user_settled old s \<Longrightarrow> user_settled v (currentUser v s)"
  by (cases "previous s")
    (auto simp: user_settled_def currentUser_def dest: strictEquals_null)

lemma settled_frame: "settled a \<Longrightarrow> frame a b \<Longrightarrow> settled b"
  by (simp add: settled_def frame_def)

lemma settled_emitted: "settled a \<Longrightarrow> emitted v a b \<Longrightarrow> settled b"
  by (auto simp: settled_def emitted_def list_all_iff
      intro: isAuthenticated_settles currentUser_settles)

lemma settled_step: "settled a \<Longrightarrow> quiet_or_emitted a b \<Longrightarrow> settled b"
  unfolding quiet_or_emitted_def using settled_frame settled_emitted by blast

lemma settled_subscribe_currentUser: "settled a \<Longrightarrow> settled (subscribe_currentUser a)"
  using currentUser_settles [of newSubscriber None "currentUserSubject a"]
  by (simp add: settled_def subscribe_currentUser_def newSubscriber_def)

lemma settled_subscribe_isAuthenticated: "settled a \<Longrightarrow> settled (subscribe_isAuthenticated a)"
  using isAuthenticated_settles [of newSubscriber None "currentUserSubject a"]
  by (simp add: settled_def subscribe_isAuthenticated_def newSubscriber_def)

lemma settled_perform: "settled a \<Longrightarrow> settled (perform act a)"
  by (cases act)
    (auto intro: settled_step login_step register_step logout_step getCurrentUser_step
      update_step settled_subscribe_currentUser settled_subscribe_isAuthenticated)

lemma settled_run: "settled a \<Longrightarrow> settled (run acts a)"
  unfolding run_def by (induction acts arbitrary: a) (simp_all add: settled_perform)

lemma settled_initial: "settled initial"
  by (simp add: settled_def initial_def)

lemma paired_frame: "paired n m a \<Longrightarrow> frame a b \<Longrightarrow> paired n m b"
  by (simp add: paired_def frame_def)

lemma paired_emitted: "paired n m a \<Longrightarrow> emitted v a b \<Longrightarrow> paired n m b"
  by (cases "distinctUntilChanged (previous (currentUserObservers a ! m)) v")
    (simp_all add: paired_def emitted_def isAuthenticated_def currentUser_def)

lemma paired_step: "paired n m a \<Longrightarrow> quiet_or_emitted a b \<Longrightarrow> paired n m b"
  unfolding quiet_or_emitted_def using paired_frame paired_emitted by blast

lemma paired_perform: "paired n m a \<Longrightarrow> paired n m (perform act a)"
proof (cases act)
  case SubscribeCurrentUser
  assume "paired n m a"
  then show ?thesis
    by (simp add: SubscribeCurrentUser paired_def subscribe_currentUser_def nth_append)
next
  case SubscribeIsAuthenticated
  assume "paired n m a"
  then show ?thesis
    by (simp add: SubscribeIsAuthenticated paired_def subscribe_isAuthenticated_def nth_append)
qed (auto intro: paired_step login_step register_step logout_step getCurrentUser_step update_step)

lemma paired_run: "paired n m a \<Longrightarrow> paired n m (run acts a)"
  unfolding run_def by (induction acts arbitrary: a) (simp_all add: paired_perform)

lemma paired_subscribe:
  "paired (length (isAuthenticatedObservers a)) (length (currentUserObservers a))
     (subscribe_isAuthenticated (subscribe_currentUser a))"
  by (simp add: paired_def subscribe_isAuthenticated_def subscribe_currentUser_def
      isAuthenticated_def currentUser_def newSubscriber_def)

subsection \<open>The token on a profile update\<close>




subsection \<open>Sharing of \<^verbatim>\<open>getCurrentUser\<close>\<close>

lemma one_observable_one_request:
  "length (requests (service (one_observable_two_subscribers w))) =
     length (requests (service w)) + 1 \<and>
   pipelines (one_observable_two_subscribers w) = pipelines w @ [InFlight [1, 2]]"
  by (simp add: one_observable_two_subscribers_def getCurrentUser_call_def subscribe_def
      Let_def nth_append list_update_append)

lemma one_observable_equal_results:
  "deliveries (settle (length (pipelines w)) answer (one_observable_two_subscribers w)) =
     deliveries w @
       [(1, errorInterceptor getCurrentUser_request
              (backend (\<lambda>req. answer) (nextRef (service w)))),
        (2, errorInterceptor getCurrentUser_request
              (backend (\<lambda>req. answer) (nextRef (service w))))]"
  by (simp add: one_observable_two_subscribers_def getCurrentUser_call_def subscribe_def
      settle_def Let_def nth_append list_update_append)

lemma two_call_sites_results_may_differ:
  "deliveries
     (settle 1 (Inl \<lparr>status = 401, error = ''token expired''\<rparr>)
       (settle 0 (Inr jake)
         (two_call_sites \<lparr>service = reloaded ''abc'', pipelines = [], deliveries = []\<rparr>))) =
     [(1, [\<lparr>user = (0, jake)\<rparr>], Complete), (2, [], Error ''token expired'')]"
  by (simp add: two_call_sites_def getCurrentUser_call_def subscribe_def settle_def
      reloaded_def eval_defs)

text \<open>
  C2. The claim is that two call sites that invoke \<^verbatim>\<open>getCurrentUser\<close>, the second while
  the first is in flight, cause one network request. In the code each invocation builds
  its own pipeline, and \<^verbatim>\<open>shareReplay(1)\<close> shares only among the subscribers of one
  pipeline (the first two lemmas above): from any state, two call sites send two
  requests, and two separate pipelines are in flight, each to be answered on its own.
\<close>

theorem two_call_sites_two_requests:
  "length (requests (service (two_call_sites w))) = length (requests (service w)) + 2 \<and>
   pipelines (two_call_sites w) = pipelines w @ [InFlight [1], InFlight [2]]"
  by (simp add: two_call_sites_def getCurrentUser_call_def subscribe_def
      Let_def nth_append list_update_append)

subsection \<open>Startup\<close>

lemma initAuth_accepted:
  "truthy (getToken (localStorage a)) \<Longrightarrow> server (outgoing getCurrentUser_request a) = Inr u \<Longrightarrow>
   fst (bootstrapApplication server a) = Booted"
  by (simp add: bootstrapApplication_def initAuth_def getCurrentUser_success appInitializer_def)

lemma initAuth_rejected:
  "truthy (getToken (localStorage a)) \<Longrightarrow> server (outgoing getCurrentUser_request a) = Inl r \<Longrightarrow>
   bootstrapApplication server a =
     (BootFailed (error r),
      purgeAuth (a\<lparr>nextRef := Suc (nextRef a),
        requests := requests a @ [outgoing getCurrentUser_request a]\<rparr>))"
  by (simp add: bootstrapApplication_def initAuth_def getCurrentUser_failure appInitializer_def)

text \<open>
  C3. The claim is that the initializer resolves whether the server accepts the stored
  token or rejects it. \<^verbatim>\<open>tap\<close> runs \<^verbatim>\<open>purgeAuth\<close> on the error and passes the error
  on, and nothing after it catches it: with the token \<open>abc\<close> in the store and a server
  that answers 401, the observable of \<^verbatim>\<open>initAuth\<close> fails and the bootstrap is rejected
  with the error body. When the server accepts, or when no token is stored, it completes.
\<close>

theorem rejected_token_fails_boot:
  "fst (bootstrapApplication (rejecting 401 ''token expired'') (reloaded ''abc'')) =
     BootFailed ''token expired'' \<and>
   getToken (localStorage (snd (bootstrapApplication (rejecting 401 ''token expired'')
     (reloaded ''abc'')))) = None \<and>
   fst (bootstrapApplication (accepting jake :: HttpRequest \<Rightarrow> string HttpErrorResponse + User)
     (reloaded ''abc'')) = Booted \<and>
   fst (bootstrapApplication (rejecting 401 ''token expired'') initial) = Booted"
  by (simp add: bootstrapApplication_def initAuth_def appInitializer_def reloaded_def
      EMPTY_def eval_defs)

subsection \<open>The Token Store follows the Session\<close>




subsection \<open>\<^verbatim>\<open>isAuthenticated\<close> is \<^verbatim>\<open>currentUser\<close> tested for null\<close>

text \<open>
  C5. After every sequence of login, register, logout, getCurrentUser and updateProfile
  calls (and subscriptions made at any time in between), every observer of
  \<^verbatim>\<open>isAuthenticated\<close> has last received \<open>true\<close> exactly when the current user is not
  null, and every observer of \<^verbatim>\<open>currentUser\<close> has last received a user exactly then.
  Moreover an observer of \<^verbatim>\<open>isAuthenticated\<close> and one of \<^verbatim>\<open>currentUser\<close> that subscribe
  together, at any time, receive emission for emission the same thing: the booleans are
  the users tested for null, one for one, so neither runs ahead of the other.
\<close>

theorem isAuthenticated_tracks_currentUser:
  "(\<forall>s \<in> set (isAuthenticatedObservers (run acts initial)).
      received s \<noteq> [] \<and>
      last (received s) = (currentUserSubject (run acts initial) \<noteq> None)) \<and>
   (\<forall>s \<in> set (currentUserObservers (run acts initial)).
      received s \<noteq> [] \<and>
      (last (received s) \<noteq> None) = (currentUserSubject (run acts initial) \<noteq> None)) \<and>
   (let a = run acts initial;
        b = run later (subscribe_isAuthenticated (subscribe_currentUser a))
    in received (isAuthenticatedObservers b ! length (isAuthenticatedObservers a)) =
       map (\<lambda>u. u \<noteq> None) (received (currentUserObservers b ! length (currentUserObservers a))))"
proof -
  have "settled (run acts initial)"
    by (rule settled_run [OF settled_initial])
  then have 1: "\<forall>s \<in> set (isAuthenticatedObservers (run acts initial)).
      received s \<noteq> [] \<and> last (received s) = (currentUserSubject (run acts initial) \<noteq> None)"
    and 2: "\<forall>s \<in> set (currentUserObservers (run acts initial)).
      received s \<noteq> [] \<and>
      (last (received s) \<noteq> None) = (currentUserSubject (run acts initial) \<noteq> None)"
    by (auto simp: settled_def list_all_iff auth_settled_def user_settled_def
        split: option.splits)
  have 3: "paired (length (isAuthenticatedObservers (run acts initial)))
      (length (currentUserObservers (run acts initial)))
      (run later (subscribe_isAuthenticated (subscribe_currentUser (run acts initial))))"
    by (rule paired_run [OF paired_subscribe])
  show ?thesis
    using 1 2 3 by (simp add: Let_def paired_def)
qed

text \<open>
  At a concrete input: two observers subscribe, jake logs in, jake logs out.
\<close>

theorem isAuthenticated_tracks_currentUser_witness:
  "(let w = run [SubscribeIsAuthenticated, SubscribeCurrentUser,
                 Login ''jake@x.com'' ''pw'' fickle, Logout] initial
    in hd (isAuthenticatedObservers w) \<in> set (isAuthenticatedObservers w) \<and>
       received (hd (isAuthenticatedObservers w)) = [False, True, False] \<and>
       last (received (hd (isAuthenticatedObservers w))) = (currentUserSubject w \<noteq> None) \<and>
       hd (currentUserObservers w) \<in> set (currentUserObservers w) \<and>
       received (hd (currentUserObservers w)) = [None, Some (0, jake), None])"
  using isAuthenticated_tracks_currentUser
    [of "[SubscribeIsAuthenticated, SubscribeCurrentUser,
          Login ''jake@x.com'' ''pw'' fickle, Logout]" "[] :: string action list"]
  by (simp add: eval_defs fickle_def)

subsection \<open>Failed calls\<close>

text \<open>
  C6. When the server answers a login, register or update with a failure, the Session
  is what it was (the Token Store, the current user, what every observer has received,
  the navigations), and the caller gets no value and, as the error, the body of the
  failure response as the server sent it.
\<close>

theorem failure_leaves_session:
  "(server (outgoing (login_request em pw) a) = Inl r \<longrightarrow>
      fst (login em pw server a) = ([], Error (error r)) \<and>
      session (snd (login em pw server a)) = session a) \<and>
   (server (outgoing (register_request un em pw) a) = Inl r \<longrightarrow>
      fst (register un em pw server a) = ([], Error (error r)) \<and>
      session (snd (register un em pw server a)) = session a) \<and>
   (server (outgoing (update_request partial) a) = Inl r \<longrightarrow>
      fst (update partial server a) = ([], Error (error r)) \<and>
      session (snd (update partial server a)) = session a)"
  by (simp add: login_failure register_failure update_failure session_def)

text \<open>
  At a concrete input: jake is logged in, and the server answers 422 with the body
  \<^verbatim>\<open>{ errors: { "email or password": ["is invalid"] } }\<close>.
\<close>

theorem failure_leaves_session_witness:
  "rejecting 422 [(''email or password'', [''is invalid''])]
     (outgoing (login_request ''jake@x.com'' ''wrong'') jake_session) =
     Inl \<lparr>status = 422, error = [(''email or password'', [''is invalid''])]\<rparr> \<and>
   fst (login ''jake@x.com'' ''wrong''
     (rejecting 422 [(''email or password'', [''is invalid''])]) jake_session) =
     ([], Error [(''email or password'', [''is invalid''])]) \<and>
   session (snd (login ''jake@x.com'' ''wrong''
     (rejecting 422 [(''email or password'', [''is invalid''])]) jake_session)) =
     session jake_session \<and>
   fst (register ''jake'' ''jake@x.com'' ''wrong''
     (rejecting 422 [(''email or password'', [''is invalid''])]) jake_session) =
     ([], Error [(''email or password'', [''is invalid''])]) \<and>
   session (snd (update [(''bio'', ''hello'')]
     (rejecting 422 [(''email or password'', [''is invalid''])]) jake_session)) =
     session jake_session"
  using failure_leaves_session
    [of "rejecting 422 [(''email or password'', [''is invalid''])]"
        "''jake@x.com''" "''wrong''" jake_session
        "\<lparr>status = 422, error = [(''email or password'', [''is invalid''])]\<rparr>"
        "''jake''" "[(''bio'', ''hello'')]"]
  by (simp add: rejecting_def)

subsection \<open>Emissions of equal users\<close>

lemma new_subscriber_gets_latest:
  "received (last (currentUserObservers (subscribe_currentUser a))) = [currentUserSubject a]"
  by (simp add: subscribe_currentUser_def currentUser_def newSubscriber_def)

lemma null_after_null_suppressed:
  "received (hd (currentUserObservers (run [SubscribeCurrentUser, Logout, Logout] initial))) =
     [None]"
  by (simp add: eval_defs)

text \<open>
  C7. The claim is that of two successive emissions of \<^verbatim>\<open>currentUser\<close> with the same
  content the second is suppressed. \<^verbatim>\<open>distinctUntilChanged()\<close> is given no comparator
  and compares with \<^verbatim>\<open>===\<close>, and every response is parsed into a new object: an
  observer subscribes, \<^verbatim>\<open>getCurrentUser\<close> returns jake, \<^verbatim>\<open>update\<close> returns jake again
  with the same fields, and the observer receives jake twice. (Only null after null is
  suppressed, and a new subscriber does get the latest value at once, as the two lemmas
  above show.)
\<close>

theorem equal_content_emitted_again:
  "received (hd (currentUserObservers
     (run [SubscribeCurrentUser, GetCurrentUser (accepting jake), UpdateProfile [] (accepting jake)]
        initial))) = [None, Some (0, jake), Some (1, jake)]"
  by (simp add: eval_defs)

subsection \<open>Route guards\<close>

text \<open>
  C8. With \<open>b\<close> the present value of \<^verbatim>\<open>isAuthenticated\<close> (the current user is not
  null): the one guard of the login route and of the register route answers the
  negation of \<open>b\<close>, the one guard of the settings route and of each editor route answers
  \<open>b\<close>; each answer is the first value of one new subscription.
\<close>

theorem guards_read_isAuthenticated:
  "guardResults ''login'' None a = [Some (\<not> (currentUserSubject a \<noteq> None))] \<and>
   guardResults ''register'' None a = [Some (\<not> (currentUserSubject a \<noteq> None))] \<and>
   guardResults ''settings'' None a = [Some (currentUserSubject a \<noteq> None)] \<and>
   guardResults ''editor'' (Some []) a = [Some (currentUserSubject a \<noteq> None)] \<and>
   guardResults ''editor'' (Some '':slug'') a = [Some (currentUserSubject a \<noteq> None)] \<and>
   guestOnly a = [\<not> (currentUserSubject a \<noteq> None)] \<and>
   authRequired a = [currentUserSubject a \<noteq> None]"
  by (simp add: guardResults_def guardsAt_def routes_def guestOnly_def authRequired_def
      isAuthenticated_def newSubscriber_def firstValue_def)

subsection \<open>Buttons pressed by an anonymous visitor\<close>

text \<open>
  C9. The claim is that a favorite or follow button activated by a visitor who is not
  authenticated redirects, makes no API call and clears its busy flag. It redirects (to
  \<^verbatim>\<open>/register\<close> and \<^verbatim>\<open>/login\<close>) and makes no call, but \<^verbatim>\<open>isSubmitting\<close>, set on
  entry, is cleared only in the \<^verbatim>\<open>next\<close> and \<^verbatim>\<open>error\<close> callbacks, and \<^verbatim>\<open>EMPTY\<close>
  triggers neither: the flag is still set when the handler returns.
\<close>

theorem anonymous_activation_stays_busy:
  "fav_isSubmitting (toggleFavorite (a\<lparr>currentUserSubject := None\<rparr>) c) = True \<and>
   fav_navigations (toggleFavorite (a\<lparr>currentUserSubject := None\<rparr>) c) =
     fav_navigations c @ [''/register''] \<and>
   fav_calls (toggleFavorite (a\<lparr>currentUserSubject := None\<rparr>) c) = fav_calls c \<and>
   follow_isSubmitting (toggleFollowing (a\<lparr>currentUserSubject := None\<rparr>) d) = True \<and>
   follow_navigations (toggleFollowing (a\<lparr>currentUserSubject := None\<rparr>) d) =
     follow_navigations d @ [''/login''] \<and>
   follow_calls (toggleFollowing (a\<lparr>currentUserSubject := None\<rparr>) d) = follow_calls d \<and>
   fav_isSubmitting (toggleFavorite_next c) = False \<and>
   fav_isSubmitting (toggleFavorite_error c) = False"
  by (simp add: toggleFavorite_def toggleFavorite_switchMap_def toggleFollowing_def
      toggleFollowing_switchMap_def isAuthenticated_def newSubscriber_def
      toggleFavorite_next_def toggleFavorite_error_def)

subsection \<open>An empty token is no token\<close>

text \<open>
  C10. When the Token Store holds the empty string: every request leaves as it would
  with the entry removed, the interceptor adds no header to it, and \<^verbatim>\<open>initAuth\<close>
  returns \<^verbatim>\<open>EMPTY\<close> and leaves the state alone (no request is logged), as it does with
  the entry removed.
\<close>

theorem empty_token_is_no_token:
  "getToken (localStorage a) = Some [] \<Longrightarrow>
   outgoing req a = outgoing req (a\<lparr>localStorage := destroyToken (localStorage a)\<rparr>) \<and>
   headers (outgoing req a) = headers req \<and>
   initAuth server a = (EMPTY, a) \<and>
   initAuth server (a\<lparr>localStorage := destroyToken (localStorage a)\<rparr>) =
     (EMPTY, a\<lparr>localStorage := destroyToken (localStorage a)\<rparr>)"
  by (simp add: outgoing_def apiInterceptor_def tokenInterceptor_def Let_def truthy_def
      initAuth_def getToken_def destroyToken_def)

text \<open>
  At a concrete input: the store holds the empty string and the server would accept.
\<close>

theorem empty_token_is_no_token_witness:
  "getToken (localStorage (reloaded [])) = Some [] \<and>
   headers (outgoing getCurrentUser_request (reloaded [])) ''Authorization'' = None \<and>
   fst (initAuth (accepting jake :: HttpRequest \<Rightarrow> string HttpErrorResponse + User)
     (reloaded [])) = ([], Complete) \<and>
   requests (snd (initAuth (accepting jake :: HttpRequest \<Rightarrow> string HttpErrorResponse + User)
     (reloaded []))) = [] \<and>
   currentUserSubject (snd (initAuth
     (accepting jake :: HttpRequest \<Rightarrow> string HttpErrorResponse + User) (reloaded []))) = None"
proof -
  have e: "getToken (localStorage (reloaded [])) = Some []"
    by (simp add: reloaded_def initial_def getToken_def saveToken_def)
  note t = empty_token_is_no_token [OF e, of getCurrentUser_request
      "accepting jake :: HttpRequest \<Rightarrow> string HttpErrorResponse + User"]
  have h: "headers (outgoing getCurrentUser_request (reloaded [])) ''Authorization'' = None"
    using t [THEN conjunct2, THEN conjunct1] by (simp add: getCurrentUser_request_def)
  have i: "initAuth (accepting jake :: HttpRequest \<Rightarrow> string HttpErrorResponse + User)
      (reloaded []) = (EMPTY, reloaded [])"
    using t [THEN conjunct2, THEN conjunct2, THEN conjunct1] .
  show ?thesis
    using e h i by (simp add: EMPTY_def reloaded_def initial_def)
qed

end
